theory Spec2Isabelle
  imports Complex_Main
begin

section \<open>Values and effects shared by the modules\<close>

text \<open>
  The package is a thin wrapper: every computation on audio is a call into an external
  library (librosa, spleeter, pathlib, click). Those calls are parameters of the model,
  collected in records of functions; a call that can raise returns a sum with the
  exception on the left. What the package itself does (the order of the calls, the
  logging, the records it builds, the attribute it overwrites) is defined here from
  the source.
\<close>

text \<open>A Python \<open>float\<close>. The package only carries such values; it never computes with them.\<close>

type_synonym float = real

text \<open>\<open>pathlib.Path(s)\<close>, as the source constructs it from a string.\<close>

datatype Path = Path string

text \<open>
  An exception object, an instance of \<open>Exception\<close> or of a subclass (what
  \<open>except Exception\<close> catches): its class name and its message, \<open>str(e)\<close>.
\<close>

datatype exn = Exception string string

fun exn_str :: "exn \<Rightarrow> string" where
  "exn_str (Exception c m) = m"

text \<open>
  The observable effects besides the file system: calls on the module's logger and
  tasks added to the console progress display, in the order they happen.
\<close>

datatype event =
    LogSetLevel nat
  | LogInfo string
  | LogError string
  | AddTask string

text \<open>
  The state threaded through every effectful function: the trace of events so far and
  the outside world (the file system) the libraries read and write.
\<close>

record 'w state =
  trace :: "event list"
  world :: "'w"

definition logger_info :: "string \<Rightarrow> 'w state \<Rightarrow> 'w state" where
  "logger_info msg s = s\<lparr>trace := trace s @ [LogInfo msg]\<rparr>"

definition logger_error :: "string \<Rightarrow> 'w state \<Rightarrow> 'w state" where
  "logger_error msg s = s\<lparr>trace := trace s @ [LogError msg]\<rparr>"

definition logger_setLevel :: "nat \<Rightarrow> 'w state \<Rightarrow> 'w state" where
  "logger_setLevel lvl s = s\<lparr>trace := trace s @ [LogSetLevel lvl]\<rparr>"

text \<open>\<open>logging.DEBUG\<close>.\<close>

definition DEBUG :: nat where
  "DEBUG = 10"

text \<open>
  The operations of \<open>pathlib\<close> the package uses: \<open>str(p)\<close>, \<open>p / name\<close>,
  \<open>p.exists()\<close> and \<open>p.mkdir(parents=True, exist_ok=True)\<close> (the only way the source
  calls \<open>mkdir\<close>). \<open>mkdir\<close> returns the new world and the exception it raised, if any.
\<close>

record 'w pathlib =
  path_str :: "Path \<Rightarrow> string"
  truediv :: "Path \<Rightarrow> string \<Rightarrow> Path"
  path_exists :: "Path \<Rightarrow> 'w \<Rightarrow> bool"
  path_mkdir :: "Path \<Rightarrow> 'w \<Rightarrow> 'w \<times> exn option"

section \<open>analyzer.py\<close>

text \<open>
  The library calls of the analyzer: \<open>librosa.load(file_path, sr=..., mono=True)\<close>, which
  reads the world and returns the samples and the sample rate;
  \<open>librosa.beat.beat_track(y=y, sr=sr)\<close>, which returns the tempo and the beat positions;
  and the builtin \<open>float(tempo)\<close>. \<open>'y\<close> is the type of sample arrays, \<open>'t\<close> the type
  of the tempo as the library returns it.
\<close>

record ('w, 'y, 't) audio_lib =
  librosa_load :: "Path \<Rightarrow> int \<Rightarrow> 'w \<Rightarrow> 'w \<times> (exn + 'y \<times> int)"
  librosa_beat_track :: "'y \<Rightarrow> int \<Rightarrow> exn + 't \<times> 'y"
  py_float :: "'t \<Rightarrow> exn + float"

text \<open>\<open>class AudioFeatures(BaseModel)\<close>: \<open>path: Path\<close>, \<open>bpm: float\<close>, \<open>key: str\<close>.\<close>

record AudioFeatures =
  path :: Path
  bpm :: float
  key :: string

text \<open>
  The dynamic view of an instance: a Python value with its run-time type, and the
  instance's fields by name, in the order the class declares them.
\<close>

datatype pyval = PyPath Path | PyFloat float | PyStr string

datatype pytype = TPath | TFloat | TStr

fun type_of :: "pyval \<Rightarrow> pytype" where
  "type_of (PyPath p) = TPath"
| "type_of (PyFloat x) = TFloat"
| "type_of (PyStr s) = TStr"

definition AudioFeatures_items :: "AudioFeatures \<Rightarrow> (string \<times> pyval) list" where
  "AudioFeatures_items f =
     [(''path'', PyPath (path f)), (''bpm'', PyFloat (bpm f)), (''key'', PyStr (key f))]"

text \<open>\<open>class AudioAnalyzer\<close>: the attributes \<open>__init__\<close> sets.\<close>

record AudioAnalyzer =
  sample_rate :: int
  bit_depth :: int

text \<open>\<open>AudioAnalyzer.__init__(self, sample_rate=48000, bit_depth=16)\<close>.\<close>

definition AudioAnalyzer_init :: "int \<Rightarrow> int \<Rightarrow> AudioAnalyzer" where
  "AudioAnalyzer_init sr bd = \<lparr>sample_rate = sr, bit_depth = bd\<rparr>"

definition AudioAnalyzer_default :: AudioAnalyzer where
  "AudioAnalyzer_default = AudioAnalyzer_init 48000 16"

text \<open>
  \<open>AudioAnalyzer._extract_features(self, y, sr)\<close> (the leading underscore is dropped: it
  is not a name here). The key is the placeholder \<open>"C"\<close>; the path is the placeholder
  \<open>Path("")\<close>.
\<close>

definition extract_features :: "('w, 'y, 't) audio_lib \<Rightarrow> 'y \<Rightarrow> int \<Rightarrow> exn + AudioFeatures" where
  "extract_features lib y sr =
     (case librosa_beat_track lib y sr of
        Inl e \<Rightarrow> Inl e
      | Inr (tempo, beats) \<Rightarrow>
          (let key_str = ''C'' in
           case py_float lib tempo of
             Inl e \<Rightarrow> Inl e
           | Inr b \<Rightarrow> Inr \<lparr>path = Path '''', bpm = b, key = key_str\<rparr>))"

text \<open>
  \<open>AudioAnalyzer.analyze_file(self, file_path)\<close>: log, load inside \<open>try\<close> (on an
  exception: log the error, re-raise), extract the features, overwrite their path.
\<close>

definition analyze_file ::
  "'w pathlib \<Rightarrow> ('w, 'y, 't) audio_lib \<Rightarrow> AudioAnalyzer \<Rightarrow> Path \<Rightarrow> 'w state
     \<Rightarrow> 'w state \<times> (exn + AudioFeatures)" where
  "analyze_file pl lib self file_path s =
     (let s1 = logger_info (''Analyzing audio file: '' @ path_str pl file_path) s;
          (w, r) = librosa_load lib file_path (sample_rate self) (world s1);
          s2 = s1\<lparr>world := w\<rparr>
      in case r of
           Inl e \<Rightarrow> (logger_error (''Error loading audio file: '' @ exn_str e) s2, Inl e)
         | Inr (y, sr) \<Rightarrow>
             (case extract_features lib y sr of
                Inl e \<Rightarrow> (s2, Inl e)
              | Inr features \<Rightarrow> (s2, Inr (features\<lparr>path := file_path\<rparr>))))"

section \<open>separator.py\<close>

text \<open>
  The calls into spleeter: the constructor \<open>SpleeterSeparator(descriptor)\<close>, the method
  \<open>separate_to_file(audio, destination, filename_format=..., codec=...)\<close>, which writes
  files into the world and may raise, and \<open>_get_stems_for_model()\<close>, which raises when
  the separator has no such method. \<open>'sep\<close> is the type of spleeter's separator objects.
\<close>

record ('w, 'sep) spleeter =
  Separator_new :: "string \<Rightarrow> exn + 'sep"
  separate_to_file :: "'sep \<Rightarrow> string \<Rightarrow> string \<Rightarrow> string \<Rightarrow> string \<Rightarrow> 'w \<Rightarrow> 'w \<times> exn option"
  get_stems_for_model :: "'sep \<Rightarrow> exn + string list"

text \<open>\<open>class StemSeparationResult(BaseModel)\<close>; \<open>stems\<close> is a \<open>dict[str, Path]\<close>.\<close>

record StemSeparationResult =
  input_file :: Path
  output_dir :: Path
  stems :: "string \<rightharpoonup> Path"

text \<open>
  \<open>class StemSeparator\<close>: the attributes \<open>self.model_name\<close>, \<open>self.output_dir\<close> and
  \<open>self.separator\<close> (prefixed, since a field name is global here).
\<close>

record 'sep StemSeparator =
  sep_model_name :: string
  sep_output_dir :: Path
  sep_separator :: "'sep"

text \<open>
  \<open>StemSeparator.__init__(self, model_name, output_dir)\<close>: store both, create the
  directory, build the spleeter separator for \<open>f"spleeter:{model_name}"\<close>.
\<close>

definition StemSeparator_init ::
  "'w pathlib \<Rightarrow> ('w, 'sep) spleeter \<Rightarrow> string \<Rightarrow> Path \<Rightarrow> 'w state
     \<Rightarrow> 'w state \<times> (exn + 'sep StemSeparator)" where
  "StemSeparator_init pl sp model_name output_dir' s =
     (let (w, r) = path_mkdir pl output_dir' (world s);
          s1 = s\<lparr>world := w\<rparr>
      in case r of
           Some e \<Rightarrow> (s1, Inl e)
         | None \<Rightarrow>
             (case Separator_new sp (''spleeter:'' @ model_name) of
                Inl e \<Rightarrow> (s1, Inl e)
              | Inr sep \<Rightarrow>
                  (s1, Inr \<lparr>sep_model_name = model_name, sep_output_dir = output_dir',
                            sep_separator = sep\<rparr>)))"

text \<open>The defaults of \<open>__init__\<close>: \<open>model_name="4stems"\<close>, \<open>output_dir=Path("output")\<close>.\<close>

definition StemSeparator_default ::
  "'w pathlib \<Rightarrow> ('w, 'sep) spleeter \<Rightarrow> 'w state \<Rightarrow> 'w state \<times> (exn + 'sep StemSeparator)" where
  "StemSeparator_default pl sp = StemSeparator_init pl sp ''4stems'' (Path ''output'')"

text \<open>
  The loop of \<open>separate\<close> over the model's stems: a stem whose file
  \<open>output_dir / f"{stem}.wav"\<close> exists is entered into the dictionary.
\<close>

fun collect_stems ::
  "'w pathlib \<Rightarrow> Path \<Rightarrow> 'w \<Rightarrow> string list \<Rightarrow> (string \<rightharpoonup> Path) \<Rightarrow> (string \<rightharpoonup> Path)" where
  "collect_stems pl od w [] acc = acc"
| "collect_stems pl od w (stem # rest) acc =
     (let stem_file = truediv pl od (stem @ ''.wav'')
      in collect_stems pl od w rest
           (if path_exists pl stem_file w then acc(stem \<mapsto> stem_file) else acc))"

text \<open>
  \<open>StemSeparator.separate(self, input_file)\<close>: log, call spleeter (no \<open>try\<close> around it:
  an exception leaves the function as it is), collect the stems, build the result.
\<close>

definition separate ::
  "'w pathlib \<Rightarrow> ('w, 'sep) spleeter \<Rightarrow> 'sep StemSeparator \<Rightarrow> Path \<Rightarrow> 'w state
     \<Rightarrow> 'w state \<times> (exn + StemSeparationResult)" where
  "separate pl sp self input_file' s =
     (let s1 = logger_info (''Separating stems from '' @ path_str pl input_file') s;
          (w, r) = separate_to_file sp (sep_separator self)
                     (path_str pl input_file') (path_str pl (sep_output_dir self))
                     ''{instrument}.{codec}'' ''wav'' (world s1);
          s2 = s1\<lparr>world := w\<rparr>
      in case r of
           Some e \<Rightarrow> (s2, Inl e)
         | None \<Rightarrow>
             (case get_stems_for_model sp (sep_separator self) of
                Inl e \<Rightarrow> (s2, Inl e)
              | Inr names \<Rightarrow>
                  (s2, Inr \<lparr>input_file = input_file',
                            output_dir = sep_output_dir self,
                            stems = collect_stems pl (sep_output_dir self) w names Map.empty\<rparr>)))"

section \<open>config.py\<close>

text \<open>The configuration classes with their field defaults; a \<open>Literal\<close> is a string.\<close>

record AudioAnalysisConfig =
  bpm_analysis_methods :: "string list"
  key_analysis_methods :: "string list"
  qualitative_analysis_methods :: "string list"
  aac_sample_rate :: int
  aac_bit_depth :: int
  aac_output_dir :: Path

definition AudioAnalysisConfig_default :: AudioAnalysisConfig where
  "AudioAnalysisConfig_default =
     \<lparr>bpm_analysis_methods = [''librosa'', ''essentia'', ''aubio''],
      key_analysis_methods = [''librosa'', ''essentia'', ''aubio''],
      qualitative_analysis_methods = [''essentia'', ''librosa''],
      aac_sample_rate = 48000,
      aac_bit_depth = 16,
      aac_output_dir = Path ''analyzed''\<rparr>"

record MusicBrainzConfig =
  enabled :: bool
  user_agent :: string
  fpcalc_path :: "Path option"

definition MusicBrainzConfig_default :: MusicBrainzConfig where
  "MusicBrainzConfig_default =
     \<lparr>enabled = True,
      user_agent = ''MusicStemSeparator/0.1.0 ( https://github.com/benkant/music-stem-separator )'',
      fpcalc_path = None\<rparr>"

record StemSeparationConfig =
  ssc_model_name :: string
  ssc_output_dir :: Path
  ssc_sample_rate :: int
  ssc_bit_depth :: int
  device :: string
  shifts :: int

definition StemSeparationConfig_default :: StemSeparationConfig where
  "StemSeparationConfig_default =
     \<lparr>ssc_model_name = ''htdemucs'',
      ssc_output_dir = Path ''stems'',
      ssc_sample_rate = 48000,
      ssc_bit_depth = 16,
      device = ''cpu'',
      shifts = 1\<rparr>"

record Config =
  audio_analysis :: AudioAnalysisConfig
  musicbrainz :: MusicBrainzConfig
  stem_separation :: StemSeparationConfig

definition DEFAULT_CONFIG :: Config where
  "DEFAULT_CONFIG =
     \<lparr>audio_analysis = AudioAnalysisConfig_default,
      musicbrainz = MusicBrainzConfig_default,
      stem_separation = StemSeparationConfig_default\<rparr>"

section \<open>cli.py\<close>

text \<open>
  What the click decorators declare: a positional argument, an option that takes a
  value (with its default, \<open>None\<close> when there is none), and a boolean flag
  (\<open>is_flag=True\<close>). An argument is required; options and flags are not.
\<close>

datatype param =
    Argument string
  | Option "string list" "string option"
  | Flag "string list"

fun required :: "param \<Rightarrow> bool" where
  "required (Argument n) = True"
| "required (Option ns d) = False"
| "required (Flag ns) = False"

record command =
  cmd_name :: string
  cmd_params :: "param list"

text \<open>
  \<open>@cli.command()\<close> is given no name, so each command is registered under the name of
  its function: \<open>def analyse\<close> and \<open>def split\<close>.
\<close>

definition analyse_command :: command where
  "analyse_command =
     \<lparr>cmd_name = ''analyse'',
      cmd_params =
        [Argument ''input_dir'',
         Option [''--output-dir''] None,
         Flag [''--skip-fingerprinting''],
         Flag [''--skip-bpm''],
         Flag [''--skip-key''],
         Flag [''--skip-qualitative''],
         Flag [''--verbose'', ''-v'']]\<rparr>"

definition split_command :: command where
  "split_command =
     \<lparr>cmd_name = ''split'',
      cmd_params =
        [Argument ''input_dir'',
         Option [''--output-dir''] None,
         Option [''--model''] (Some (ssc_model_name (stem_separation DEFAULT_CONFIG))),
         Flag [''--verbose'', ''-v'']]\<rparr>"

text \<open>The group \<open>cli\<close>: its commands in the order they are registered, and the lookup by name.\<close>

definition cli_commands :: "command list" where
  "cli_commands = [analyse_command, split_command]"

definition get_command :: "string \<Rightarrow> command option" where
  "get_command name = find (\<lambda>c. cmd_name c = name) cli_commands"

definition progress_add_task :: "string \<Rightarrow> 'w state \<Rightarrow> 'w state" where
  "progress_add_task description s = s\<lparr>trace := trace s @ [AddTask description]\<rparr>"

text \<open>
  The body of \<open>analyse\<close>. \<open>output_dir or input_dir\<close> takes \<open>input_dir\<close> exactly when
  \<open>output_dir\<close> is \<open>None\<close> (a \<open>Path\<close> is never falsy). After the three log lines the
  body only adds a progress task: the analysis and the output are a \<open>TODO\<close>.
\<close>

definition analyse ::
  "'w pathlib \<Rightarrow> Path \<Rightarrow> Path option \<Rightarrow> bool \<Rightarrow> bool \<Rightarrow> bool \<Rightarrow> bool \<Rightarrow> bool \<Rightarrow> 'w state
     \<Rightarrow> 'w state \<times> (exn + unit)" where
  "analyse pl input_dir output_dir' skip_fingerprinting skip_bpm skip_key skip_qualitative
     verbose s =
     (let s0 = (if verbose then logger_setLevel DEBUG s else s);
          out = (case output_dir' of None \<Rightarrow> input_dir | Some d \<Rightarrow> d);
          (w, r) = path_mkdir pl out (world s0);
          s1 = s0\<lparr>world := w\<rparr>
      in case r of
           Some e \<Rightarrow> (s1, Inl e)
         | None \<Rightarrow>
             (let s2 = logger_info (''Analyzing audio files in: '' @ path_str pl input_dir) s1;
                  s3 = logger_info (''Output directory: '' @ path_str pl out) s2;
                  s4 = logger_info
                         (''Analysis features: ''
                          @ (if \<not> skip_fingerprinting then ''MusicBrainz'' else '''') @ '' ''
                          @ (if \<not> skip_bpm then ''BPM'' else '''') @ '' ''
                          @ (if \<not> skip_key then ''Key'' else '''') @ '' ''
                          @ (if \<not> skip_qualitative then ''Qualitative'' else '''')) s3;
                  s5 = progress_add_task ''Scanning input directory...'' s4
              in (s5, Inr ())))"

text \<open>The body of \<open>split\<close> (named \<open>split_cmd\<close> here): the same shape, and again a \<open>TODO\<close>.\<close>

definition split_cmd ::
  "'w pathlib \<Rightarrow> Path \<Rightarrow> Path option \<Rightarrow> string \<Rightarrow> bool \<Rightarrow> 'w state
     \<Rightarrow> 'w state \<times> (exn + unit)" where
  "split_cmd pl input_dir output_dir' model verbose s =
     (let s0 = (if verbose then logger_setLevel DEBUG s else s);
          out = (case output_dir' of None \<Rightarrow> input_dir | Some d \<Rightarrow> d);
          (w, r) = path_mkdir pl out (world s0);
          s1 = s0\<lparr>world := w\<rparr>
      in case r of
           Some e \<Rightarrow> (s1, Inl e)
         | None \<Rightarrow>
             (let s2 = logger_info (''Splitting audio files in: '' @ path_str pl input_dir) s1;
                  s3 = logger_info (''Output directory: '' @ path_str pl out) s2;
                  s4 = logger_info (''Using DEMUCS model: '' @ model) s3;
                  s5 = progress_add_task ''Scanning input directory...'' s4
              in (s5, Inr ())))"

section \<open>What the tests import and call\<close>

text \<open>
  The names \<open>analyzer.py\<close> binds at module level, in order, and
  \<open>from music_stem_separator.analyzer import name\<close> against them; the methods that
  \<open>class AudioAnalyzer\<close> defines and the parameters of its \<open>__init__\<close>.
\<close>

definition analyzer_module_names :: "string list" where
  "analyzer_module_names =
     [''annotations'', ''logging'', ''Path'', ''Final'', ''librosa'', ''np'', ''BaseModel'',
      ''Console'', ''logger'', ''console'', ''AudioFeatures'', ''AudioAnalyzer'']"

definition import_from :: "string list \<Rightarrow> string \<Rightarrow> exn + string" where
  "import_from names name =
     (if name \<in> set names then Inr name
      else Inl (Exception ''ImportError'' (''cannot import name '' @ name)))"

definition AudioAnalyzer_methods :: "string list" where
  "AudioAnalyzer_methods = [''__init__'', ''analyze_file'', ''_extract_features'']"

definition AudioAnalyzer_init_params :: "string list" where
  "AudioAnalyzer_init_params = [''sample_rate'', ''bit_depth'']"

section \<open>Instances for evaluation\<close>

text \<open>
  A small world to run the model on: the file system is the list of the files and the
  list of the directories that exist, paths are joined with a slash, and the audio
  library loads any existing file as three samples at the requested rate and reports
  120 beats per minute.
\<close>

record toy_fs =
  files :: "Path list"
  dirs :: "Path list"

fun toy_str :: "Path \<Rightarrow> string" where
  "toy_str (Path p) = p"

fun toy_truediv :: "Path \<Rightarrow> string \<Rightarrow> Path" where
  "toy_truediv (Path p) name = Path (p @ ''/'' @ name)"

definition toy_exists :: "Path \<Rightarrow> toy_fs \<Rightarrow> bool" where
  "toy_exists p w = (p \<in> set (files w) \<or> p \<in> set (dirs w))"

definition toy_mkdir :: "Path \<Rightarrow> toy_fs \<Rightarrow> toy_fs \<times> exn option" where
  "toy_mkdir p w =
     (if p \<in> set (files w) then (w, Some (Exception ''FileExistsError'' (toy_str p)))
      else if p \<in> set (dirs w) then (w, None)
      else (w\<lparr>dirs := dirs w @ [p]\<rparr>, None))"

definition toy_pathlib :: "toy_fs pathlib" where
  "toy_pathlib =
     \<lparr>path_str = toy_str, truediv = toy_truediv, path_exists = toy_exists,
      path_mkdir = toy_mkdir\<rparr>"

definition toy_load :: "Path \<Rightarrow> int \<Rightarrow> toy_fs \<Rightarrow> toy_fs \<times> (exn + float list \<times> int)" where
  "toy_load p sr w =
     (if p \<in> set (files w) then (w, Inr ([0, 1, 0], sr))
      else (w, Inl (Exception ''FileNotFoundError'' (toy_str p))))"

definition toy_audio_lib :: "(toy_fs, float list, float) audio_lib" where
  "toy_audio_lib =
     \<lparr>librosa_load = toy_load,
      librosa_beat_track = (\<lambda>y sr. Inr (120, [])),
      py_float = (\<lambda>t. Inr t)\<rparr>"

definition toy_state :: "toy_fs state" where
  "toy_state = \<lparr>trace = [], world = \<lparr>files = [Path ''in/song.wav''], dirs = [Path ''in'']\<rparr>\<rparr>"

text \<open>
  The toy spleeter, after the published library. A separator object is its descriptor;
  the constructor accepts the embedded configurations \<open>spleeter:2stems\<close>,
  \<open>spleeter:4stems\<close>, \<open>spleeter:5stems\<close> and their \<open>-16kHz\<close> variants and raises on
  any other descriptor. Separating an existing file writes one file per instrument of
  the configuration into the destination, and a missing file raises. The separator
  class has no method \<open>_get_stems_for_model\<close>: the call the source makes raises
  \<open>AttributeError\<close>.
\<close>

definition toy_configurations :: "string list" where
  "toy_configurations =
     [''spleeter:2stems'', ''spleeter:4stems'', ''spleeter:5stems'',
      ''spleeter:2stems-16kHz'', ''spleeter:4stems-16kHz'', ''spleeter:5stems-16kHz'']"

definition toy_Separator_new :: "string \<Rightarrow> exn + string" where
  "toy_Separator_new d =
     (if d \<in> set toy_configurations then Inr d
      else Inl (Exception ''SpleeterError'' d))"

definition toy_stems :: "string \<Rightarrow> string list" where
  "toy_stems d =
     (if d = ''spleeter:2stems'' \<or> d = ''spleeter:2stems-16kHz''
      then [''vocals'', ''accompaniment'']
      else if d = ''spleeter:5stems'' \<or> d = ''spleeter:5stems-16kHz''
      then [''vocals'', ''piano'', ''drums'', ''bass'', ''other'']
      else [''vocals'', ''drums'', ''bass'', ''other''])"

definition toy_separate_to_file ::
  "string \<Rightarrow> string \<Rightarrow> string \<Rightarrow> string \<Rightarrow> string \<Rightarrow> toy_fs \<Rightarrow> toy_fs \<times> exn option" where
  "toy_separate_to_file d audio dest fmt codec w =
     (if Path audio \<in> set (files w)
      then (w\<lparr>files := files w @ map (\<lambda>i. Path (dest @ ''/'' @ i @ ''.'' @ codec)) (toy_stems d)\<rparr>,
            None)
      else (w, Some (Exception ''SpleeterError'' audio)))"

definition toy_spleeter :: "(toy_fs, string) spleeter" where
  "toy_spleeter =
     \<lparr>Separator_new = toy_Separator_new,
      separate_to_file = toy_separate_to_file,
      get_stems_for_model =
        (\<lambda>d. Inl (Exception ''AttributeError''
                    ''Separator object has no attribute _get_stems_for_model''))\<rparr>"

text \<open>
  The library \<open>separate\<close> is written against: the toy spleeter with the method the
  source calls, returning the instruments of the separator's configuration. It serves
  to run \<open>separate\<close> past that call.
\<close>

definition toy_spleeter_stems :: "(toy_fs, string) spleeter" where
  "toy_spleeter_stems = toy_spleeter\<lparr>get_stems_for_model := (\<lambda>d. Inr (toy_stems d))\<rparr>"

definition toy_separator :: "string StemSeparator" where
  "toy_separator =
     \<lparr>sep_model_name = ''2stems'', sep_output_dir = Path ''out'',
      sep_separator = ''spleeter:2stems''\<rparr>"

text \<open>The state after the toy separator was built: its output directory exists.\<close>

definition toy_state_out :: "toy_fs state" where
  "toy_state_out =
     \<lparr>trace = [], world = \<lparr>files = [Path ''in/song.wav''], dirs = [Path ''in'', Path ''out'']\<rparr>\<rparr>"

section \<open>Reading a trace\<close>

text \<open>The messages of the \<open>logger.error\<close> calls of a trace, in order.\<close>

definition logged_errors :: "event list \<Rightarrow> string list" where
  "logged_errors tr = concat (map (\<lambda>ev. case ev of LogError m \<Rightarrow> [m] | _ \<Rightarrow> []) tr)"

section \<open>Auxiliary facts\<close>

lemmas toy_defs = toy_audio_lib_def toy_load_def toy_state_def toy_pathlib_def
  AudioAnalyzer_default_def AudioAnalyzer_init_def toy_spleeter_def toy_separator_def
  toy_separate_to_file_def toy_stems_def toy_exists_def toy_mkdir_def
  toy_Separator_new_def toy_configurations_def toy_spleeter_stems_def

subsection \<open>The analyzer\<close>

lemma world_logger_info: "world (logger_info msg s) = world s"
  by (simp add: logger_info_def)

lemma extract_features_key:
  "extract_features lib y sr = Inr c \<Longrightarrow> key c = ''C'' \<and> path c = Path ''''"
  by (auto simp: extract_features_def split: sum.splits prod.splits)

text \<open>After a successful load the result is decided by the feature extraction alone.\<close>

lemma analyze_file_loaded:
  assumes "librosa_load lib fp (sample_rate self) (world s) = (w, Inr (y, sr))"
  shows "snd (analyze_file pl lib self fp s) =
           (case extract_features lib y sr of
              Inl e \<Rightarrow> Inl e
            | Inr c \<Rightarrow> Inr (c\<lparr>path := fp\<rparr>))"
  using assms
  by (simp add: analyze_file_def world_logger_info split: sum.splits)

lemma toy_load_song:
  "librosa_load toy_audio_lib (Path ''in/song.wav'') (sample_rate AudioAnalyzer_default)
     (world toy_state) = (world toy_state, Inr ([0, 1, 0], 48000))"
  by (simp add: toy_defs)

lemma toy_extract:
  "extract_features toy_audio_lib [0, 1, 0] 48000
     = Inr \<lparr>path = Path '''', bpm = 120, key = ''C''\<rparr>"
  by (simp add: extract_features_def toy_audio_lib_def)

lemma toy_analyze_file:
  "snd (analyze_file toy_pathlib toy_audio_lib AudioAnalyzer_default (Path ''in/song.wav'') toy_state)
     = Inr \<lparr>path = Path ''in/song.wav'', bpm = 120, key = ''C''\<rparr>"
  by (simp add: analyze_file_def extract_features_def logger_info_def toy_defs)

subsection \<open>The separator\<close>

text \<open>
  The dictionary the loop builds, key by key: a stem of the list whose file exists maps
  to that file, any other key keeps what the accumulator held.
\<close>

lemma collect_stems_apply:
  "collect_stems pl od w names acc stem =
     (if stem \<in> set names \<and> path_exists pl (truediv pl od (stem @ ''.wav'')) w
      then Some (truediv pl od (stem @ ''.wav''))
      else acc stem)"
  by (induction names arbitrary: acc) (auto simp: Let_def)

lemma separate_ok:
  assumes "separate_to_file sp (sep_separator self) (path_str pl inp)
             (path_str pl (sep_output_dir self)) ''{instrument}.{codec}'' ''wav'' (world s)
           = (w, None)"
    and "get_stems_for_model sp (sep_separator self) = Inr names"
  shows "separate pl sp self inp s =
           (s\<lparr>trace := trace s @ [LogInfo (''Separating stems from '' @ path_str pl inp)],
              world := w\<rparr>,
            Inr \<lparr>input_file = inp, output_dir = sep_output_dir self,
                 stems = collect_stems pl (sep_output_dir self) w names Map.empty\<rparr>)"
  using assms by (simp add: separate_def logger_info_def)

lemma StemSeparator_init_ok:
  assumes "StemSeparator_init pl sp model od s0 = (s1, Inr self)"
  shows "sep_output_dir self = od \<and> sep_model_name self = model
         \<and> Separator_new sp (''spleeter:'' @ model) = Inr (sep_separator self)"
  using assms
  by (auto simp: StemSeparator_init_def Let_def split: prod.splits option.splits sum.splits)

lemma toy_init:
  "StemSeparator_init toy_pathlib toy_spleeter ''2stems'' (Path ''out'') toy_state
     = (toy_state_out, Inr toy_separator)"
  by (simp add: StemSeparator_init_def toy_defs toy_state_out_def)

text \<open>
  When the library does provide the stems of the model, \<open>separate\<close> returns a result
  with the given input file and the configured output directory, whose \<open>stems\<close> are
  the stems of the model whose file exists after the separation.
\<close>

lemma separate_returns_if_stems:
  assumes "StemSeparator_init pl sp model od s0 = (s1, Inr self)"
    and "separate_to_file sp (sep_separator self) (path_str pl inp)
             (path_str pl od) ''{instrument}.{codec}'' ''wav'' (world s)
           = (w, None)"
    and "get_stems_for_model sp (sep_separator self) = Inr names"
  shows "Separator_new sp (''spleeter:'' @ model) = Inr (sep_separator self)
         \<and> (\<exists>r. snd (separate pl sp self inp s) = Inr r
               \<and> input_file r = inp
               \<and> output_dir r = od
               \<and> dom (stems r) \<subseteq> set names
               \<and> (\<forall>stem. stems r stem =
                     (if stem \<in> set names \<and> path_exists pl (truediv pl od (stem @ ''.wav'')) w
                      then Some (truediv pl od (stem @ ''.wav''))
                      else None)))"
proof -
  note i = StemSeparator_init_ok [OF assms(1)]
  have od: "sep_output_dir self = od" using i by simp
  have "separate pl sp self inp s =
           (s\<lparr>trace := trace s @ [LogInfo (''Separating stems from '' @ path_str pl inp)],
              world := w\<rparr>,
            Inr \<lparr>input_file = inp, output_dir = sep_output_dir self,
                 stems = collect_stems pl (sep_output_dir self) w names Map.empty\<rparr>)"
    using assms(2,3) od by (intro separate_ok) simp_all
  then show ?thesis
    using i by (auto simp: collect_stems_apply dom_def)
qed

text \<open>
  When the call for the stems raises, \<open>separate\<close> raises that exception, after the
  separation has written its files: no result is returned.
\<close>

lemma separate_raises_if_no_stems:
  assumes "separate_to_file sp (sep_separator self) (path_str pl inp)
             (path_str pl (sep_output_dir self)) ''{instrument}.{codec}'' ''wav'' (world s)
           = (w, None)"
    and "get_stems_for_model sp (sep_separator self) = Inl e"
  shows "separate pl sp self inp s =
           (s\<lparr>trace := trace s @ [LogInfo (''Separating stems from '' @ path_str pl inp)],
              world := w\<rparr>,
            Inl e)"
  using assms by (simp add: separate_def logger_info_def)

lemma toy_separate_song:
  "separate toy_pathlib toy_spleeter_stems toy_separator (Path ''in/song.wav'') toy_state_out
     = (\<lparr>trace = [LogInfo ''Separating stems from in/song.wav''],
         world = \<lparr>files = [Path ''in/song.wav'', Path ''out/vocals.wav'',
                           Path ''out/accompaniment.wav''],
                  dirs = [Path ''in'', Path ''out'']\<rparr>\<rparr>,
        Inr \<lparr>input_file = Path ''in/song.wav'', output_dir = Path ''out'',
             stems = [''vocals'' \<mapsto> Path ''out/vocals.wav'',
                      ''accompaniment'' \<mapsto> Path ''out/accompaniment.wav'']\<rparr>)"
  by (simp add: separate_def logger_info_def toy_defs toy_state_out_def)

subsection \<open>The commands\<close>

text \<open>
  Whatever the arguments, the only thing either command does to the file system is the
  one \<open>mkdir\<close> of its output directory.
\<close>

lemma analyse_world:
  "world (fst (analyse pl input_dir od a b c d v s))
     = fst (path_mkdir pl (case od of None \<Rightarrow> input_dir | Some p \<Rightarrow> p) (world s))"
  by (simp add: analyse_def Let_def logger_info_def logger_setLevel_def progress_add_task_def
      split: prod.splits option.splits)

lemma split_cmd_world:
  "world (fst (split_cmd pl input_dir od model v s))
     = fst (path_mkdir pl (case od of None \<Rightarrow> input_dir | Some p \<Rightarrow> p) (world s))"
  by (simp add: split_cmd_def Let_def logger_info_def logger_setLevel_def progress_add_task_def
      split: prod.splits option.splits)

section \<open>The claims\<close>

subsection \<open>C1: the key is the placeholder\<close>

text \<open>
  C1. Once the audio is loaded, whatever the samples \<open>y\<close> are, \<open>analyze_file\<close> either
  returns a features record whose \<open>key\<close> is the hardcoded \<open>"C"\<close>, or passes on the
  exception of the tempo estimation; no other outcome exists.
\<close>

theorem analyze_file_key_placeholder:
  assumes "librosa_load lib fp (sample_rate self) (world s) = (w, Inr (y, sr))"
  shows "case snd (analyze_file pl lib self fp s) of
           Inr f \<Rightarrow> key f = ''C''
         | Inl e \<Rightarrow> extract_features lib y sr = Inl e"
  using analyze_file_loaded [OF assms, of pl] extract_features_key [of lib y sr]
  by (auto split: sum.splits)

text \<open>On the toy world the file loads and the record returned has the key \<open>"C"\<close>.\<close>

theorem analyze_file_key_placeholder_witness:
  "librosa_load toy_audio_lib (Path ''in/song.wav'') (sample_rate AudioAnalyzer_default)
     (world toy_state) = (world toy_state, Inr ([0, 1, 0], 48000))
   \<and> snd (analyze_file toy_pathlib toy_audio_lib AudioAnalyzer_default (Path ''in/song.wav'')
            toy_state)
       = Inr \<lparr>path = Path ''in/song.wav'', bpm = 120, key = ''C''\<rparr>
   \<and> (case snd (analyze_file toy_pathlib toy_audio_lib AudioAnalyzer_default
                   (Path ''in/song.wav'') toy_state) of
         Inr f \<Rightarrow> key f = ''C''
       | Inl e \<Rightarrow> extract_features toy_audio_lib [0, 1, 0] 48000 = Inl e)"
  using analyze_file_key_placeholder [OF toy_load_song, of toy_pathlib]
    toy_load_song toy_analyze_file
  by simp

subsection \<open>C2: the analyse command writes no file\<close>

text \<open>
  C2. The docstring of \<open>analyse\<close> promises a renamed WAV file and a JSON file per input
  file. Run on a directory \<open>in\<close> that holds \<open>in/song.wav\<close>, with the output directory
  \<open>out\<close>, the body logs three lines, adds a progress task and returns: the only change
  to the file system is the new directory \<open>out\<close>, and the files are the ones that were
  there before.
\<close>

theorem analyse_writes_no_file:
  "analyse toy_pathlib (Path ''in'') (Some (Path ''out'')) False False False False False toy_state
     = (\<lparr>trace = [LogInfo ''Analyzing audio files in: in'',
                  LogInfo ''Output directory: out'',
                  LogInfo ''Analysis features: MusicBrainz BPM Key Qualitative'',
                  AddTask ''Scanning input directory...''],
         world = \<lparr>files = [Path ''in/song.wav''], dirs = [Path ''in'', Path ''out'']\<rparr>\<rparr>,
        Inr ())"
  by (simp add: analyse_def logger_info_def progress_add_task_def toy_defs)

subsection \<open>C3: the types of the tempo and the key\<close>

text \<open>
  C3. For a valid audio file, that is when the load, the beat tracking and the
  conversion of the tempo succeed, \<open>analyze_file\<close> returns a features record; its
  \<open>bpm\<close> field is the converted tempo, a float, and its \<open>key\<close> field is a string.
\<close>

theorem analyze_file_field_types:
  assumes "librosa_load lib fp (sample_rate self) (world s) = (w, Inr (y, sr))"
    and "librosa_beat_track lib y sr = Inr (t, beats)"
    and "py_float lib t = Inr v"
  shows "\<exists>f. snd (analyze_file pl lib self fp s) = Inr f
           \<and> bpm f = v
           \<and> map_option type_of (map_of (AudioFeatures_items f) ''bpm'') = Some TFloat
           \<and> map_option type_of (map_of (AudioFeatures_items f) ''key'') = Some TStr"
  using analyze_file_loaded [OF assms(1), of pl] assms(2,3)
  by (simp add: extract_features_def AudioFeatures_items_def)

text \<open>On the toy world all three calls succeed, with the tempo 120.\<close>

theorem analyze_file_field_types_witness:
  "librosa_load toy_audio_lib (Path ''in/song.wav'') (sample_rate AudioAnalyzer_default)
     (world toy_state) = (world toy_state, Inr ([0, 1, 0], 48000))
   \<and> librosa_beat_track toy_audio_lib [0, 1, 0] 48000 = Inr (120, [])
   \<and> py_float toy_audio_lib 120 = Inr 120
   \<and> (\<exists>f. snd (analyze_file toy_pathlib toy_audio_lib AudioAnalyzer_default
                   (Path ''in/song.wav'') toy_state) = Inr f
           \<and> bpm f = 120
           \<and> map_option type_of (map_of (AudioFeatures_items f) ''bpm'') = Some TFloat
           \<and> map_option type_of (map_of (AudioFeatures_items f) ''key'') = Some TStr)"
proof -
  have bt: "librosa_beat_track toy_audio_lib [0, 1, 0] 48000 = Inr (120, [])"
    by (simp add: toy_audio_lib_def)
  have fl: "py_float toy_audio_lib 120 = Inr 120"
    by (simp add: toy_audio_lib_def)
  show ?thesis
    using analyze_file_field_types [OF toy_load_song bt fl, of toy_pathlib] toy_load_song bt fl
    by simp
qed

subsection \<open>C4: the result of a separation\<close>

text \<open>
  C4. The docstring of \<open>separate\<close> and the separator's test promise a result with the
  input file, the configured output directory and the stems. Against the published
  spleeter the call never returns one. The separator for \<open>2stems\<close> and the directory
  \<open>out\<close> is built without error; run on the existing file \<open>in/song.wav\<close>, \<open>separate\<close>
  logs its line, spleeter writes \<open>out/vocals.wav\<close> and \<open>out/accompaniment.wav\<close>, and
  then the call \<open>self.separator._get_stems_for_model()\<close> raises \<open>AttributeError\<close>,
  which leaves \<open>separate\<close>: no result is built.
\<close>

theorem separate_raises_after_separation:
  "StemSeparator_init toy_pathlib toy_spleeter ''2stems'' (Path ''out'') toy_state
     = (toy_state_out, Inr toy_separator)
   \<and> separate toy_pathlib toy_spleeter toy_separator (Path ''in/song.wav'') toy_state_out
     = (\<lparr>trace = [LogInfo ''Separating stems from in/song.wav''],
         world = \<lparr>files = [Path ''in/song.wav'', Path ''out/vocals.wav'',
                           Path ''out/accompaniment.wav''],
                  dirs = [Path ''in'', Path ''out'']\<rparr>\<rparr>,
        Inl (Exception ''AttributeError''
               ''Separator object has no attribute _get_stems_for_model''))"
  by (simp add: StemSeparator_init_def separate_def logger_info_def toy_defs toy_state_out_def)

subsection \<open>C5: errors of the delegated calls\<close>

text \<open>
  C5, as the code has it. An exception raised by the load in the analyzer is logged
  with \<open>logger.error\<close> and raised again unchanged. An exception raised by the spleeter
  call in the separator leaves \<open>separate\<close> unchanged too, but nothing is logged for it:
  the trace ends with the \<open>info\<close> line written before the call. In both functions the
  library is called once, and the world is left as that one call left it.
\<close>

theorem delegated_errors_propagate:
  "(\<forall>w e. librosa_load lib fp (sample_rate an) (world s) = (w, Inl e) \<longrightarrow>
       analyze_file pl lib an fp s =
         (s\<lparr>trace := trace s @ [LogInfo (''Analyzing audio file: '' @ path_str pl fp),
                                  LogError (''Error loading audio file: '' @ exn_str e)],
            world := w\<rparr>, Inl e))
   \<and> (\<forall>w e. separate_to_file sp (sep_separator self) (path_str pl' inp)
              (path_str pl' (sep_output_dir self)) ''{instrument}.{codec}'' ''wav'' (world s')
            = (w, Some e) \<longrightarrow>
       separate pl' sp self inp s' =
         (s'\<lparr>trace := trace s' @ [LogInfo (''Separating stems from '' @ path_str pl' inp)],
             world := w\<rparr>, Inl e))"
  by (simp add: analyze_file_def separate_def logger_info_def logger_error_def)

text \<open>On the toy world a missing file makes both library calls raise.\<close>

theorem delegated_errors_propagate_witness:
  "librosa_load toy_audio_lib (Path ''in/missing.wav'') (sample_rate AudioAnalyzer_default)
     (world toy_state)
     = (world toy_state, Inl (Exception ''FileNotFoundError'' ''in/missing.wav''))
   \<and> analyze_file toy_pathlib toy_audio_lib AudioAnalyzer_default (Path ''in/missing.wav'')
       toy_state
     = (toy_state\<lparr>trace := [LogInfo ''Analyzing audio file: in/missing.wav'',
                              LogError ''Error loading audio file: in/missing.wav'']\<rparr>,
        Inl (Exception ''FileNotFoundError'' ''in/missing.wav''))
   \<and> separate_to_file toy_spleeter (sep_separator toy_separator)
       (path_str toy_pathlib (Path ''in/missing.wav''))
       (path_str toy_pathlib (sep_output_dir toy_separator))
       ''{instrument}.{codec}'' ''wav'' (world toy_state_out)
     = (world toy_state_out, Some (Exception ''SpleeterError'' ''in/missing.wav''))
   \<and> separate toy_pathlib toy_spleeter toy_separator (Path ''in/missing.wav'') toy_state_out
     = (toy_state_out\<lparr>trace := [LogInfo ''Separating stems from in/missing.wav'']\<rparr>,
        Inl (Exception ''SpleeterError'' ''in/missing.wav''))"
proof -
  have l: "librosa_load toy_audio_lib (Path ''in/missing.wav'')
             (sample_rate AudioAnalyzer_default) (world toy_state)
           = (world toy_state, Inl (Exception ''FileNotFoundError'' ''in/missing.wav''))"
    by (simp add: toy_defs)
  have p: "separate_to_file toy_spleeter (sep_separator toy_separator)
             (path_str toy_pathlib (Path ''in/missing.wav''))
             (path_str toy_pathlib (sep_output_dir toy_separator))
             ''{instrument}.{codec}'' ''wav'' (world toy_state_out)
           = (world toy_state_out, Some (Exception ''SpleeterError'' ''in/missing.wav''))"
    by (simp add: toy_defs toy_state_out_def)
  note t = delegated_errors_propagate
    [of toy_audio_lib "Path ''in/missing.wav''" AudioAnalyzer_default toy_state toy_pathlib
        toy_spleeter toy_separator toy_pathlib "Path ''in/missing.wav''" toy_state_out]
  have a: "analyze_file toy_pathlib toy_audio_lib AudioAnalyzer_default (Path ''in/missing.wav'')
             toy_state
           = (toy_state\<lparr>trace := [LogInfo ''Analyzing audio file: in/missing.wav'',
                                    LogError ''Error loading audio file: in/missing.wav'']\<rparr>,
              Inl (Exception ''FileNotFoundError'' ''in/missing.wav''))"
    using t l by (simp add: toy_state_def toy_pathlib_def)
  have b: "separate toy_pathlib toy_spleeter toy_separator (Path ''in/missing.wav'') toy_state_out
           = (toy_state_out\<lparr>trace := [LogInfo ''Separating stems from in/missing.wav'']\<rparr>,
              Inl (Exception ''SpleeterError'' ''in/missing.wav''))"
    using t p by (simp add: toy_state_out_def toy_pathlib_def)
  show ?thesis using l a p b by simp
qed

text \<open>
  C5, as stated, fails in the separator: separating the missing file \<open>in/missing.wav\<close>
  raises the library's exception, and the trace of the call holds no \<open>logger.error\<close>
  entry.
\<close>

theorem separate_failure_not_logged:
  "snd (separate toy_pathlib toy_spleeter toy_separator (Path ''in/missing.wav'') toy_state_out)
     = Inl (Exception ''SpleeterError'' ''in/missing.wav'')
   \<and> logged_errors (trace (fst (separate toy_pathlib toy_spleeter toy_separator
                                    (Path ''in/missing.wav'') toy_state_out))) = []"
  by (simp add: separate_def logger_info_def logged_errors_def toy_defs toy_state_out_def)

subsection \<open>C6: what changes after construction\<close>

text \<open>
  C6, as the code has it. The features record that \<open>analyze_file\<close> returns is the one
  \<open>_extract_features\<close> constructed, with its \<open>path\<close> overwritten by the file path: \<open>bpm\<close>
  and \<open>key\<close> keep the values of the construction, \<open>path\<close> was the placeholder
  \<open>Path("")\<close>. A separation result is returned as it was constructed, from the input
  file, the separator's output directory and the collected stems.
\<close>

theorem fields_after_construction:
  assumes "librosa_load lib fp (sample_rate an) (world s) = (w, Inr (y, sr))"
    and "extract_features lib y sr = Inr c"
    and "separate pl' sp self inp s' = (s'', Inr r)"
  shows "snd (analyze_file pl lib an fp s) = Inr (c\<lparr>path := fp\<rparr>)
         \<and> bpm (c\<lparr>path := fp\<rparr>) = bpm c
         \<and> key (c\<lparr>path := fp\<rparr>) = key c
         \<and> path c = Path ''''
         \<and> (\<exists>names. get_stems_for_model sp (sep_separator self) = Inr names
               \<and> r = \<lparr>input_file = inp, output_dir = sep_output_dir self,
                       stems = collect_stems pl' (sep_output_dir self) (world s'') names
                                 Map.empty\<rparr>)"
proof -
  have a: "snd (analyze_file pl lib an fp s) = Inr (c\<lparr>path := fp\<rparr>)"
    using analyze_file_loaded [OF assms(1), of pl] assms(2) by simp
  have b: "path c = Path ''''"
    using extract_features_key [OF assms(2)] by simp
  have c: "\<exists>names. get_stems_for_model sp (sep_separator self) = Inr names
               \<and> r = \<lparr>input_file = inp, output_dir = sep_output_dir self,
                       stems = collect_stems pl' (sep_output_dir self) (world s'') names
                                 Map.empty\<rparr>"
    using assms(3)
    by (auto simp: separate_def Let_def split: prod.splits option.splits sum.splits)
  show ?thesis using a b c by simp
qed

text \<open>
  On the toy world the analysis of \<open>in/song.wav\<close> succeeds, and so does its separation
  with the library that has the method for the stems.
\<close>

theorem fields_after_construction_witness:
  "librosa_load toy_audio_lib (Path ''in/song.wav'') (sample_rate AudioAnalyzer_default)
     (world toy_state) = (world toy_state, Inr ([0, 1, 0], 48000))
   \<and> extract_features toy_audio_lib [0, 1, 0] 48000
       = Inr \<lparr>path = Path '''', bpm = 120, key = ''C''\<rparr>
   \<and> separate toy_pathlib toy_spleeter_stems toy_separator (Path ''in/song.wav'') toy_state_out
     = (\<lparr>trace = [LogInfo ''Separating stems from in/song.wav''],
         world = \<lparr>files = [Path ''in/song.wav'', Path ''out/vocals.wav'',
                           Path ''out/accompaniment.wav''],
                  dirs = [Path ''in'', Path ''out'']\<rparr>\<rparr>,
        Inr \<lparr>input_file = Path ''in/song.wav'', output_dir = Path ''out'',
             stems = [''vocals'' \<mapsto> Path ''out/vocals.wav'',
                      ''accompaniment'' \<mapsto> Path ''out/accompaniment.wav'']\<rparr>)
   \<and> snd (analyze_file toy_pathlib toy_audio_lib AudioAnalyzer_default (Path ''in/song.wav'')
            toy_state)
     = Inr (\<lparr>path = Path '''', bpm = 120, key = ''C''\<rparr>\<lparr>path := Path ''in/song.wav''\<rparr>)"
  using fields_after_construction [OF toy_load_song toy_extract toy_separate_song, of toy_pathlib]
    toy_load_song toy_extract toy_separate_song
  by simp

text \<open>
  C6, as stated, fails for the features record: the instance is constructed with the
  path \<open>Path("")\<close>, and the instance \<open>analyze_file\<close> returns for \<open>in/song.wav\<close> has
  another path, assigned after the construction.
\<close>

theorem path_modified_after_construction:
  "extract_features toy_audio_lib [0, 1, 0] 48000
     = Inr \<lparr>path = Path '''', bpm = 120, key = ''C''\<rparr>
   \<and> analyze_file toy_pathlib toy_audio_lib AudioAnalyzer_default (Path ''in/song.wav'')
       toy_state
     = (toy_state\<lparr>trace := [LogInfo ''Analyzing audio file: in/song.wav'']\<rparr>,
        Inr \<lparr>path = Path ''in/song.wav'', bpm = 120, key = ''C''\<rparr>)
   \<and> Path ''in/song.wav'' \<noteq> Path ''''"
  by (simp add: analyze_file_def extract_features_def logger_info_def toy_defs)

subsection \<open>C7: the record and the call the tests name\<close>

text \<open>
  C7. The test module imports \<open>AudioAnalysisResult\<close> from the analyzer module, calls
  \<open>analyzer.analyze\<close>, builds the analyzer with \<open>bpm_method\<close> and reads
  \<open>result.confidence\<close>. The analyzer module binds no such name (the import raises),
  the class has no method \<open>analyze\<close> and no parameter \<open>bpm_method\<close>, and the features
  record has the fields \<open>path\<close>, \<open>bpm\<close> and \<open>key\<close> only.
\<close>

theorem tests_reference_missing_names:
  "import_from analyzer_module_names ''AudioAnalysisResult''
     = Inl (Exception ''ImportError'' ''cannot import name AudioAnalysisResult'')
   \<and> ''analyze'' \<notin> set AudioAnalyzer_methods
   \<and> ''bpm_method'' \<notin> set AudioAnalyzer_init_params
   \<and> map fst (AudioFeatures_items f) = [''path'', ''bpm'', ''key'']
   \<and> map_of (AudioFeatures_items f) ''confidence'' = None"
  by (simp add: import_from_def analyzer_module_names_def AudioAnalyzer_methods_def
      AudioAnalyzer_init_params_def AudioFeatures_items_def)

subsection \<open>C8: the commands of the group\<close>

text \<open>
  C8, as the code has it. The group has exactly two commands, registered under the
  names \<open>analyse\<close> and \<open>split\<close>. Each takes one required parameter, the argument
  \<open>input_dir\<close>, and has the option \<open>--output-dir\<close>, whose default is \<open>None\<close>.
\<close>

theorem cli_surface:
  "map cmd_name cli_commands = [''analyse'', ''split'']
   \<and> get_command ''analyse'' = Some analyse_command
   \<and> get_command ''split'' = Some split_command
   \<and> list_all (\<lambda>c. filter required (cmd_params c) = [Argument ''input_dir'']
                     \<and> Option [''--output-dir''] None \<in> set (cmd_params c)) cli_commands"
  by (simp add: cli_commands_def get_command_def analyse_command_def split_command_def)

text \<open>
  C8, as stated, fails on the first name: the group has no command \<open>analyze\<close>.
\<close>

theorem no_command_analyze:
  "get_command ''analyze'' = None
   \<and> ''analyze'' \<notin> set (map cmd_name cli_commands)"
  by (simp add: cli_commands_def get_command_def analyse_command_def split_command_def)

subsection \<open>C9: the path of the returned record\<close>

text \<open>
  C9. Once the file is loaded, a successful feature extraction constructs the record
  with the placeholder path \<open>Path("")\<close>, and \<open>analyze_file\<close> returns a record whose
  \<open>path\<close> is the file path it was given; when the extraction raises, so does
  \<open>analyze_file\<close>, and no record is returned.
\<close>

theorem analyze_file_path:
  assumes "librosa_load lib fp (sample_rate self) (world s) = (w, Inr (y, sr))"
  shows "case extract_features lib y sr of
           Inr c \<Rightarrow> path c = Path ''''
                    \<and> (\<exists>f. snd (analyze_file pl lib self fp s) = Inr f \<and> path f = fp)
         | Inl e \<Rightarrow> snd (analyze_file pl lib self fp s) = Inl e"
  using analyze_file_loaded [OF assms, of pl] extract_features_key [of lib y sr]
  by (auto split: sum.splits)

text \<open>On the toy world: constructed with \<open>Path("")\<close>, returned with \<open>in/song.wav\<close>.\<close>

theorem analyze_file_path_witness:
  "librosa_load toy_audio_lib (Path ''in/song.wav'') (sample_rate AudioAnalyzer_default)
     (world toy_state) = (world toy_state, Inr ([0, 1, 0], 48000))
   \<and> extract_features toy_audio_lib [0, 1, 0] 48000
       = Inr \<lparr>path = Path '''', bpm = 120, key = ''C''\<rparr>
   \<and> snd (analyze_file toy_pathlib toy_audio_lib AudioAnalyzer_default (Path ''in/song.wav'')
            toy_state)
       = Inr \<lparr>path = Path ''in/song.wav'', bpm = 120, key = ''C''\<rparr>"
  using analyze_file_path [OF toy_load_song, of toy_pathlib] toy_load_song toy_analyze_file
  by (simp add: extract_features_def toy_audio_lib_def)

end
